theory Spec2Isabelle
  imports Main "HOL-Library.AList"
begin

section \<open>Python values\<close>

text \<open>
  The fragment of Python's object universe that \<open>pyconfig.py\<close> manipulates.
  Dictionary keys are text, integers or \<open>None\<close> (the representative of a hashable
  key that is neither \<open>str\<close> nor \<open>int\<close>). A dictionary is an association list in
  iteration order; \<open>VConfig items attrs\<close> is an instance of \<open>class Config(dict)\<close>: its
  \<open>dict\<close> contents and its instance attributes (the object's \<open>__dict__\<close>).
  \<open>VMethod n\<close> is the object found under the class-level name \<open>n\<close>, kept opaque: a
  bound method, or the class and the attribute dictionary for \<open>__class__\<close> and
  \<open>__dict__\<close>. Characters are the code points below 256.
\<close>

datatype key = KStr string | KInt int | KNone

datatype val =
    VNone
  | VBool bool
  | VInt int
  | VStr string
  | VMethod string
  | VDict "(key \<times> val) list"
  | VConfig "(key \<times> val) list" "(string \<times> val) list"

type_synonym items = "(key \<times> val) list"
type_synonym attrs = "(string \<times> val) list"

text \<open>
  Exceptions. \<open>KeyError\<close>, \<open>AttributeError\<close> and \<open>TypeError\<close> are Python's classes, whether
  raised by a \<open>raise\<close> statement of the source or by the interpreter (an attribute read on
  an object that lacks it, \<open>+\<close> on operands that do not add, a call of something that is
  not callable, a missing keyword in \<open>str.format\<close>); \<open>FormatError\<close> is the \<open>ValueError\<close>
  or \<open>IndexError\<close> of \<open>str.format\<close>; \<open>CheckRaised\<close> is any exception raised inside a
  user-supplied callable.
\<close>

datatype error =
    KeyError key
  | AttributeError string
  | TypeError
  | FormatError
  | CheckRaised

section \<open>Key normalisation: \<open>identifier\<close>\<close>

definition punctuation :: string where
  "punctuation =
     [CHR 0x21, CHR 0x22, CHR 0x23, CHR 0x24, CHR 0x25, CHR 0x26, CHR 0x27, CHR 0x28,
      CHR 0x29, CHR 0x2A, CHR 0x2B, CHR 0x2C, CHR 0x2D, CHR 0x2E, CHR 0x2F, CHR 0x3A,
      CHR 0x3B, CHR 0x3C, CHR 0x3D, CHR 0x3E, CHR 0x3F, CHR 0x40, CHR 0x5B, CHR 0x5C,
      CHR 0x5D, CHR 0x5E, CHR 0x5F, CHR 0x60, CHR 0x7B, CHR 0x7C, CHR 0x7D, CHR 0x7E]"

definition whitespace :: string where
  "whitespace = [CHR 0x20, CHR 0x09, CHR 0x0A, CHR 0x0D, CHR 0x0B, CHR 0x0C]"

definition trans_table :: "char \<Rightarrow> char" where
  "trans_table c = (if c \<in> set (punctuation @ whitespace) then CHR ''_'' else c)"

definition translate :: "string \<Rightarrow> string" where
  "translate name = map trans_table name"

text \<open>
  \<open>str.isdigit\<close> on one character: below 256 it holds of the ten ASCII digits and of the
  superscripts U+00B2, U+00B3 and U+00B9.
\<close>

definition isdigit :: "char \<Rightarrow> bool" where
  "isdigit c = (c \<in> set ''0123456789'' \<or> c \<in> set [CHR 0xB2, CHR 0xB3, CHR 0xB9])"

definition digit_char :: "nat \<Rightarrow> char" where
  "digit_char d = char_of (48 + d)"

fun str_nat :: "nat \<Rightarrow> string" where
  "str_nat n = (if n < 10 then [digit_char n] else str_nat (n div 10) @ [digit_char (n mod 10)])"

declare str_nat.simps [simp del]

definition str_int :: "int \<Rightarrow> string" where
  "str_int i = (if i < 0 then CHR ''-'' # str_nat (nat (- i)) else str_nat (nat i))"

text \<open>\<open>str(name)\<close> for the keys of the model.\<close>

fun py_str :: "key \<Rightarrow> string" where
  "py_str (KStr s) = s"
| "py_str (KInt i) = str_int i"
| "py_str KNone = ''None''"

definition "identifier" :: "key \<Rightarrow> string" where
  "identifier name =
     (if name = KStr [] then ''_''
      else let name = py_str name;
               name = (if isdigit (hd name) then CHR ''_'' # name else name)
           in translate name)"


section \<open>The store: \<open>class Config(dict)\<close>\<close>

text \<open>\<open>isinstance(k, (str, int))\<close>.\<close>

fun is_str_or_int :: "key \<Rightarrow> bool" where
  "is_str_or_int (KStr s) = True"
| "is_str_or_int (KInt i) = True"
| "is_str_or_int KNone = False"

text \<open>\<open>Config.__getitem__\<close>: the raw key first, then its normalised form.\<close>

definition getitem :: "items \<Rightarrow> key \<Rightarrow> error + val" where
  "getitem self key =
     (case map_of self key of
        Some v \<Rightarrow> Inr v
      | None \<Rightarrow>
          (case map_of self (KStr (identifier key)) of
             Some v \<Rightarrow> Inr v
           | None \<Rightarrow> Inl (KeyError key)))"

text \<open>\<open>Config.__getattr__\<close>: called by Python only after ordinary attribute lookup failed.\<close>

definition Config_getattr :: "items \<Rightarrow> string \<Rightarrow> error + val" where
  "Config_getattr self attr =
     (case getitem self (KStr attr) of
        Inr v \<Rightarrow> Inr v
      | Inl e \<Rightarrow> Inl (AttributeError attr))"

text \<open>
  Member-style read \<open>self.attr\<close> (and \<open>getattr(self, attr)\<close>): Python looks the name up in
  the instance attributes, then in the class (\<open>cls\<close>, the names bound by \<open>Config\<close>,
  \<open>dict\<close> and \<open>object\<close>: methods and \<open>general_errors\<close>), and only then calls
  \<open>__getattr__\<close>. The class namespace depends on the Python version, so it is a parameter.
\<close>

definition py_getattr :: "(string \<Rightarrow> val option) \<Rightarrow> items \<Rightarrow> attrs \<Rightarrow> string \<Rightarrow> error + val" where
  "py_getattr cls self self_attrs attr =
     (case map_of self_attrs attr of
        Some v \<Rightarrow> Inr v
      | None \<Rightarrow>
          (case cls attr of
             Some m \<Rightarrow> Inr m
           | None \<Rightarrow> Config_getattr self attr))"

text \<open>
  The class namespace of CPython 3.11: the names the body of \<open>class Config\<close> binds (lines
  32 to 330 of the source), those the class statement adds, and those of \<open>dict\<close> and
  \<open>object\<close>. The docstring, the module name (that of the file), \<open>__hash__\<close> and
  \<open>__weakref__\<close> (both \<open>None\<close>) and \<open>general_errors\<close> are data; the others are
  opaque objects.
\<close>

definition general_errors :: items where
  "general_errors =
     [(KStr ''prefix'', VStr ''{path}.{name} ''),
      (KStr ''invalid'', VStr ''is invalid''),
      (KStr ''missing'', VStr ''is missing''),
      (KStr ''suffix'', VStr ''.'')]"

definition Config_names :: "string list" where
  "Config_names =
     [''__init__'', ''__getitem__'', ''__getattr__'', ''__setattr__'', ''update'',
      ''set_defaults'', ''on_error'', ''follows_template'', ''_check'', ''_get_error_msg'',
      ''_prepare_error_msgs'', ''_follows_template'']"

definition dict_names :: "string list" where
  "dict_names =
     [''__class__'', ''__class_getitem__'', ''__contains__'', ''__delattr__'', ''__delitem__'',
      ''__dict__'', ''__dir__'', ''__eq__'', ''__format__'', ''__ge__'', ''__getattribute__'',
      ''__getstate__'', ''__gt__'', ''__init_subclass__'', ''__ior__'', ''__iter__'', ''__le__'',
      ''__len__'', ''__lt__'', ''__ne__'', ''__new__'', ''__or__'', ''__reduce__'',
      ''__reduce_ex__'', ''__repr__'', ''__reversed__'', ''__ror__'', ''__setitem__'',
      ''__sizeof__'', ''__str__'', ''__subclasshook__'', ''clear'', ''copy'', ''fromkeys'',
      ''get'', ''items'', ''keys'', ''pop'', ''popitem'', ''setdefault'', ''values'']"

definition Config_class :: "string \<Rightarrow> val option" where
  "Config_class n =
     (if n = ''general_errors'' then Some (VDict general_errors)
      else if n = ''__doc__'' then Some (VStr '' An object designed to simplify configuration. '')
      else if n = ''__module__'' then Some (VStr ''pyconfig'')
      else if n = ''__hash__'' \<or> n = ''__weakref__'' then Some VNone
      else if n \<in> set Config_names \<or> n \<in> set dict_names then Some (VMethod n)
      else None)"

text \<open>\<open>Config.__setattr__\<close>: \<open>self[attr] = value\<close> is \<open>dict.__setitem__\<close>, on the raw name.\<close>

definition Config_setattr :: "items \<times> attrs \<Rightarrow> string \<Rightarrow> val \<Rightarrow> items \<times> attrs" where
  "Config_setattr self attr v =
     (if map_of (fst self) (KStr attr) \<noteq> None
      then (AList.update (KStr attr) v (fst self), snd self)
      else (fst self, AList.update attr v (snd self)))"

text \<open>\<open>isinstance(v, dict)\<close> and \<open>isinstance(v, Config)\<close>, with the parts of the object.\<close>

fun as_dict :: "val \<Rightarrow> items option" where
  "as_dict (VDict d) = Some d"
| "as_dict (VConfig d a) = Some d"
| "as_dict v = None"

fun as_Config :: "val \<Rightarrow> (items \<times> attrs) option" where
  "as_Config (VConfig c ca) = Some (c, ca)"
| "as_Config v = None"

text \<open>
  A method called on an object, \<open>obj.m(...)\<close>, is looked up like any attribute: an
  instance attribute named \<open>m\<close> is found before the method of the class. The values of
  the model are data, so the call of such an attribute raises \<open>TypeError\<close> (an instance
  attribute that holds a bound method is treated like the others). \<open>items_ok v\<close> says
  that \<open>v.items\<close> is the method of \<open>dict\<close>.
\<close>

definition shadowed :: "attrs \<Rightarrow> string \<Rightarrow> bool" where
  "shadowed sa m = (map_of sa m \<noteq> None)"

fun items_ok :: "val \<Rightarrow> bool" where
  "items_ok (VConfig d a) = (\<not> shadowed a ''items'')"
| "items_ok v = True"

text \<open>
  \<open>Config.update\<close>. The store is mutated in place, so the result is the store reached
  together with the exception that ended the call, if any. \<open>Config(v)\<close> for a nested
  dictionary is \<open>update\<close> of \<open>v.items()\<close> on a fresh object (followed by \<open>set_defaults\<close>
  of the empty default, which has no item to visit); when it raises, nothing is stored.
  \<open>update\<close> itself stores through \<open>super\<close>, which no instance attribute shadows.
\<close>

function update :: "items \<Rightarrow> items \<Rightarrow> items \<times> error option" where
  "update self [] = (self, None)"
| "update self ((k, v) # values) =
     (if is_str_or_int k then
        (case as_dict v of
           Some d \<Rightarrow>
             if items_ok v then
               (case update [] d of
                  (c, None) \<Rightarrow> update (AList.update (KStr (identifier k)) (VConfig c []) self) values
                | (c, Some e) \<Rightarrow> (self, Some e))
             else (self, Some TypeError)
         | None \<Rightarrow> update (AList.update (KStr (identifier k)) v self) values)
      else (self, Some TypeError))"
  by pat_completeness auto
termination
proof -
  have le: "size_list (\<lambda>p. size (snd p)) d \<le> size_list (size_prod (\<lambda>x. 0) size) d"
    for d :: items
    by (induction d) auto
  have lt: "size_list (\<lambda>p. size (snd p)) d < Suc (size v + n)" if "as_dict v = Some d"
    for v d n
    using that le [of d] by (cases v) auto
  show ?thesis
    by (relation "measure (\<lambda>(self, values). size_list (\<lambda>p. size (snd p)) values)")
      (auto simp: lt)
qed

text \<open>
  \<open>Config.set_defaults\<close> on the store \<open>self\<close> with the instance attributes \<open>sa\<close>. In
  the nested case \<open>self[k].set_defaults(v)\<close> reads the stored object and asks it for the
  method: only a \<open>Config\<close> has it. The nested object is mutated in place, also when the
  nested call raises.
\<close>

function set_defaults :: "items \<Rightarrow> attrs \<Rightarrow> items \<Rightarrow> items \<times> error option"
  and set_defaults_dict :: "items \<Rightarrow> attrs \<Rightarrow> key \<Rightarrow> bool \<Rightarrow> items \<Rightarrow> items \<times> error option" where
  "set_defaults self sa [] = (self, None)"
| "set_defaults self sa ((k, v) # defaults) =
     (if is_str_or_int k then
        (case (case as_dict v of
                 Some d \<Rightarrow> set_defaults_dict self sa (KStr (identifier k)) (items_ok v) d
               | None \<Rightarrow>
                   if map_of self (KStr (identifier k)) = None
                   then if shadowed sa ''update'' then (self, Some TypeError)
                        else update self [(KStr (identifier k), v)]
                   else (self, None)) of
           (self', None) \<Rightarrow> set_defaults self' sa defaults
         | (self', Some e) \<Rightarrow> (self', Some e))
      else (self, Some TypeError))"
| "set_defaults_dict self sa k ok d =
     (if map_of self k = None then
        if ok then
          (case update [] d of
             (c, None) \<Rightarrow>
               if shadowed sa ''update'' then (self, Some TypeError)
               else update self [(k, VConfig c [])]
           | (c, Some e) \<Rightarrow> (self, Some e))
        else (self, Some TypeError)
      else
        (case getitem self k of
           Inl e \<Rightarrow> (self, Some e)
         | Inr x \<Rightarrow>
             (case as_Config x of
                Some (c, a) \<Rightarrow>
                  if shadowed a ''set_defaults'' \<or> \<not> ok then (self, Some TypeError)
                  else
                    (case set_defaults c a d of
                       (c', r) \<Rightarrow> (AList.update k (VConfig c' a) self, r))
              | None \<Rightarrow> (self, Some (AttributeError ''set_defaults'')))))"
  by pat_completeness auto
termination
proof -
  have le: "size_list (\<lambda>p. size (snd p)) d \<le> size_list (size_prod (\<lambda>x. 0) size) d"
    for d :: items
    by (induction d) auto
  have lt: "size_list (\<lambda>p. size (snd p)) d < size v" if "as_dict v = Some d"
    for v d
    using that le [of d] by (cases v) auto
  show ?thesis
    by (relation "measure (\<lambda>x. case x of
            Inl (self, sa, defaults) \<Rightarrow> 2 * size_list (\<lambda>p. size (snd p)) defaults
          | Inr (self, sa, k, ok, d) \<Rightarrow> 2 * size_list (\<lambda>p. size (snd p)) d + 1)")
      (auto dest: lt)
qed

declare set_defaults_dict.simps [simp del]

text \<open>The constructor \<open>Config(values, defaults)\<close>; the new object has no instance attribute.\<close>

definition Config_init :: "items \<Rightarrow> items \<Rightarrow> error + items" where
  "Config_init values defaults =
     (case update [] values of
        (s, Some e) \<Rightarrow> Inl e
      | (s, None) \<Rightarrow>
          (case set_defaults s [] defaults of
             (s', Some e) \<Rightarrow> Inl e
           | (s', None) \<Rightarrow> Inr s'))"


section \<open>Checks: \<open>Config._check\<close>\<close>

text \<open>
  A check is dispatched on its Python type: \<open>list\<close>, \<open>set\<close> (given in its iteration
  order), \<open>type\<close>, callable, \<open>tuple\<close>, and any other object, compared by value. A
  callable returns a truth value or raises (\<open>None\<close>). The members of a tuple check are
  callables, iterables that are not mappings (\<open>OList\<close>, by their elements), dictionaries,
  and other objects (\<open>OOther\<close>, by their truth value: \<open>None\<close> is \<open>OOther False\<close>).
\<close>

datatype pytype = TyObject | TyNoneType | TyBool | TyInt | TyStr | TyDict | TyConfig | TyOther

datatype tobj =
    OFun "val \<Rightarrow> val list \<Rightarrow> items \<Rightarrow> bool option"
  | OList "val list"
  | ODict items
  | OOther bool

datatype chk =
    CList "chk list"
  | CSet "chk list"
  | CType pytype
  | CFun "val \<Rightarrow> bool option"
  | CTuple "tobj list"
  | CValue val

text \<open>\<open>isinstance(attr, t)\<close>: \<open>bool\<close> is a subclass of \<open>int\<close>, \<open>Config\<close> of \<open>dict\<close>.\<close>

fun isinstance :: "val \<Rightarrow> pytype \<Rightarrow> bool" where
  "isinstance v TyObject = True"
| "isinstance VNone t = (t = TyNoneType)"
| "isinstance (VBool b) t = (t = TyBool \<or> t = TyInt)"
| "isinstance (VInt i) t = (t = TyInt)"
| "isinstance (VStr s) t = (t = TyStr)"
| "isinstance (VMethod n) t = False"
| "isinstance (VDict d) t = (t = TyDict)"
| "isinstance (VConfig d a) t = (t = TyConfig \<or> t = TyDict)"

text \<open>
  \<open>attr == check\<close>: numbers compare by value (\<open>True == 1\<close>), dictionaries by their items
  whatever the order (\<open>Config\<close> inherits \<open>dict.__eq__\<close>).
\<close>

fun py_eq :: "val \<Rightarrow> val \<Rightarrow> bool"
  and items_le :: "items \<Rightarrow> items \<Rightarrow> bool" where
  "py_eq VNone w = (w = VNone)"
| "py_eq (VBool b) w = (w = VBool b \<or> w = VInt (if b then 1 else 0))"
| "py_eq (VInt i) w = (w = VInt i \<or> (i = 1 \<and> w = VBool True) \<or> (i = 0 \<and> w = VBool False))"
| "py_eq (VStr s) w = (w = VStr s)"
| "py_eq (VMethod n) w = (w = VMethod n)"
| "py_eq (VDict d) w =
     (case w of
        VDict d' \<Rightarrow> length (remdups (map fst d)) = length (remdups (map fst d')) \<and> items_le d d'
      | VConfig d' a' \<Rightarrow> length (remdups (map fst d)) = length (remdups (map fst d')) \<and> items_le d d'
      | _ \<Rightarrow> False)"
| "py_eq (VConfig d a) w =
     (case w of
        VDict d' \<Rightarrow> length (remdups (map fst d)) = length (remdups (map fst d')) \<and> items_le d d'
      | VConfig d' a' \<Rightarrow> length (remdups (map fst d)) = length (remdups (map fst d')) \<and> items_le d d'
      | _ \<Rightarrow> False)"
| "items_le [] d' = True"
| "items_le ((k, v) # d) d' =
     ((case map_of d' k of None \<Rightarrow> False | Some w \<Rightarrow> py_eq v w) \<and> items_le d d')"

text \<open>\<open>func(attr, *args, **kwargs)\<close> for the members of a tuple check.\<close>

fun key_val :: "key \<Rightarrow> val" where
  "key_val (KStr s) = VStr s"
| "key_val (KInt i) = VInt i"
| "key_val KNone = VNone"

fun is_KStr :: "key \<Rightarrow> bool" where
  "is_KStr (KStr s) = True"
| "is_KStr k = False"

fun call :: "tobj \<Rightarrow> val \<Rightarrow> tobj \<Rightarrow> tobj \<Rightarrow> error + bool" where
  "call (OFun f) attr args (ODict kwargs) =
     (case (case args of
              OList xs \<Rightarrow> Some xs
            | ODict d \<Rightarrow> Some (map (key_val \<circ> fst) d)
            | _ \<Rightarrow> None) of
        None \<Rightarrow> Inl TypeError
      | Some xs \<Rightarrow>
          if list_all (is_KStr \<circ> fst) kwargs
          then (case f attr xs kwargs of None \<Rightarrow> Inl CheckRaised | Some b \<Rightarrow> Inr b)
          else Inl TypeError)"
| "call func attr args kwargs = Inl TypeError"

text \<open>\<open>not kwargs\<close> and \<open>isinstance(args, dict)\<close>.\<close>

fun falsy :: "tobj \<Rightarrow> bool" where
  "falsy (OFun f) = False"
| "falsy (OList xs) = (xs = [])"
| "falsy (ODict d) = (d = [])"
| "falsy (OOther t) = (\<not> t)"

fun is_ODict :: "tobj \<Rightarrow> bool" where
  "is_ODict (ODict d) = True"
| "is_ODict t = False"

text \<open>\<open>dict(enumerate(check)).get(i, default)\<close>.\<close>

definition tuple_get :: "tobj list \<Rightarrow> nat \<Rightarrow> tobj \<Rightarrow> tobj" where
  "tuple_get t i dflt = (if i < length t then t ! i else dflt)"

fun check :: "val \<Rightarrow> chk \<Rightarrow> error + bool"
  and check_any :: "val \<Rightarrow> chk list \<Rightarrow> error + bool"
  and check_all :: "val \<Rightarrow> chk list \<Rightarrow> error + bool" where
  "check attr (CList cs) = check_any attr cs"
| "check attr (CSet cs) = check_all attr cs"
| "check attr (CType t) = Inr (isinstance attr t)"
| "check attr (CFun f) = (case f attr of None \<Rightarrow> Inl CheckRaised | Some b \<Rightarrow> Inr b)"
| "check attr (CTuple t) =
     (let func = tuple_get t 0 (OFun (\<lambda>x xs kw. if xs = [] \<and> kw = [] then Some False else None));
          args = tuple_get t 1 (OList []);
          kwargs = tuple_get t 2 (ODict [])
      in if falsy kwargs \<and> is_ODict args
         then call func attr (OList []) args
         else call func attr args kwargs)"
| "check attr (CValue v) = Inr (py_eq attr v)"
| "check_any attr [] = Inr False"
| "check_any attr (c # cs) =
     (case check attr c of
        Inl e \<Rightarrow> Inl e
      | Inr True \<Rightarrow> Inr True
      | Inr False \<Rightarrow> check_any attr cs)"
| "check_all attr [] = Inr True"
| "check_all attr (c # cs) =
     (case check attr c of
        Inl e \<Rightarrow> Inl e
      | Inr False \<Rightarrow> Inr False
      | Inr True \<Rightarrow> check_all attr cs)"


section \<open>Error messages: \<open>_get_error_msg\<close> and \<open>_prepare_error_msgs\<close>\<close>

text \<open>
  The methods \<open>_check\<close>, \<open>_get_error_msg\<close>, \<open>_prepare_error_msgs\<close> and
  \<open>_follows_template\<close> are \<open>check\<close>, \<open>get_error_msg\<close>, \<open>prepare_error_msgs\<close> and
  \<open>follows_template'\<close> here.
\<close>

definition bind :: "error + 'a \<Rightarrow> ('a \<Rightarrow> error + 'b) \<Rightarrow> error + 'b" where
  "bind r f = (case r of Inl e \<Rightarrow> Inl e | Inr x \<Rightarrow> f x)"

text \<open>\<open>dict.get(k, default)\<close>, which \<open>Config\<close> does not override: the raw key only.\<close>

definition dict_get :: "items \<Rightarrow> key \<Rightarrow> val \<Rightarrow> val" where
  "dict_get d k dflt = (case map_of d k of Some v \<Rightarrow> v | None \<Rightarrow> dflt)"

fun py_get :: "val \<Rightarrow> key \<Rightarrow> val \<Rightarrow> error + val" where
  "py_get (VDict d) k dflt = Inr (dict_get d k dflt)"
| "py_get (VConfig d a) k dflt =
     (if shadowed a ''get'' then Inl TypeError else Inr (dict_get d k dflt))"
| "py_get v k dflt = Inl (AttributeError ''get'')"

text \<open>\<open>obj.attr\<close> for a data attribute: only a \<open>Config\<close> answers.\<close>

fun val_getattr :: "(string \<Rightarrow> val option) \<Rightarrow> val \<Rightarrow> string \<Rightarrow> error + val" where
  "val_getattr cls (VConfig d a) attr = py_getattr cls d a attr"
| "val_getattr cls v attr = Inl (AttributeError attr)"

text \<open>\<open>values.items()\<close>.\<close>

fun py_items :: "val \<Rightarrow> error + items" where
  "py_items (VDict d) = Inr d"
| "py_items (VConfig d a) = (if shadowed a ''items'' then Inl TypeError else Inr d)"
| "py_items v = Inl (AttributeError ''items'')"

text \<open>\<open>a + b\<close>.\<close>

fun int_of :: "val \<Rightarrow> int option" where
  "int_of (VInt i) = Some i"
| "int_of (VBool b) = Some (if b then 1 else 0)"
| "int_of v = None"

fun py_add :: "val \<Rightarrow> val \<Rightarrow> error + val" where
  "py_add (VStr a) (VStr b) = Inr (VStr (a @ b))"
| "py_add a b =
     (case (int_of a, int_of b) of
        (Some i, Some j) \<Rightarrow> Inr (VInt (i + j))
      | _ \<Rightarrow> Inl TypeError)"

fun is_Config :: "val \<Rightarrow> bool" where
  "is_Config (VConfig d a) = True"
| "is_Config v = False"

definition get_error_msg :: "(string \<Rightarrow> val option) \<Rightarrow> key \<Rightarrow> val \<Rightarrow> bool \<Rightarrow> error + val" where
  "get_error_msg cls attr_name error_msgs missing =
     (let situation = KStr (if missing then ''missing'' else ''invalid'') in
      bind (val_getattr cls error_msgs ''_'') (\<lambda>g.
      bind (py_get g situation VNone) (\<lambda>dflt.
      bind (py_get error_msgs attr_name dflt) (\<lambda>error.
        if is_Config error then
          bind (val_getattr cls g ''prefix'') (\<lambda>p.
          bind (py_get error (KStr ''prefix'') p) (\<lambda>a.
          bind (py_get error situation dflt) (\<lambda>b.
          bind (py_add a b) (\<lambda>ab.
          bind (val_getattr cls g ''suffix'') (\<lambda>s.
          bind (py_get error (KStr ''suffix'') s) (\<lambda>c.
          py_add ab c))))))
        else
          bind (val_getattr cls g ''prefix'') (\<lambda>p.
          bind (py_add p error) (\<lambda>pe.
          bind (val_getattr cls g ''suffix'') (\<lambda>s.
          py_add pe s)))))))"

text \<open>
  \<open>_prepare_error_msgs\<close> on an object with the instance attributes \<open>sa\<close>: the read of
  \<open>self.general_errors\<close> finds an instance attribute of that name before the dictionary
  of the class.
\<close>

definition prepare_error_msgs :: "attrs \<Rightarrow> val \<Rightarrow> items \<Rightarrow> error + val" where
  "prepare_error_msgs sa error_msgs defaults =
     bind (case error_msgs of
             VStr s \<Rightarrow>
               map_sum id (\<lambda>c. VConfig c [])
                 (Config_init [(KStr ''_'', VDict [(KStr ''invalid'', VStr s)])] [])
           | _ \<Rightarrow> Inr error_msgs) (\<lambda>error_msgs.
     bind (Config_init defaults
             [(KStr ''_'', case map_of sa ''general_errors'' of
                             Some v \<Rightarrow> v
                           | None \<Rightarrow> VDict general_errors)]) (\<lambda>inner.
     bind (py_items error_msgs) (\<lambda>values.
     map_sum id (\<lambda>c. VConfig c []) (Config_init values inner))))"

section \<open>Validation: \<open>on_error\<close>, \<open>_follows_template\<close>, \<open>follows_template\<close>\<close>

text \<open>
  \<open>on_error\<close> prints \<open>error.format(**kwargs)\<close>, where \<open>kwargs\<close> has the four keys of
  \<open>formatting_info\<close>. \<open>py_format\<close> is what \<open>str.format\<close> raises, if anything, scanning
  the text from the left: \<open>{{\<close> and \<open>}}\<close> are literal braces; a single \<open>}\<close>, a
  \<open>{\<close> that is not closed and a \<open>{\<close> inside a field name are errors; a field that is
  a plain name formats the keyword argument of that name, and raises \<open>KeyError\<close> when
  there is none; an empty or numeric field asks for a positional argument, and there is
  none. From the first field that uses a conversion, a format specification, an
  attribute or an index (one of \<open>! : . [\<close>) the outcome depends on the values formatted
  and is left to the parameter \<open>fld\<close>, given the field read so far and the rest of the
  text. The method \<open>format\<close> exists on text only. The model keeps what the hook
  receives: the message before formatting and the four entries of \<open>formatting_info\<close>.
\<close>

definition fmt_field :: "string \<Rightarrow> error option" where
  "fmt_field f =
     (if f \<in> set [''missing'', ''name'', ''path'', ''value''] then None
      else if list_all (\<lambda>c. c \<in> set ''0123456789'') f then Some FormatError
      else Some (KeyError (KStr f)))"

datatype fstate = Text | Field string

fun py_format :: "(string \<Rightarrow> string \<Rightarrow> error option) \<Rightarrow> fstate \<Rightarrow> string \<Rightarrow> error option" where
  "py_format fld Text [] = None"
| "py_format fld Text (c # r) =
     (if c = CHR ''{'' then
        (case r of
           [] \<Rightarrow> Some FormatError
         | d # r' \<Rightarrow> if d = CHR ''{'' then py_format fld Text r' else py_format fld (Field []) r)
      else if c = CHR ''}'' then
        (case r of
           [] \<Rightarrow> Some FormatError
         | d # r' \<Rightarrow> if d = CHR ''}'' then py_format fld Text r' else Some FormatError)
      else py_format fld Text r)"
| "py_format fld (Field f) [] = Some FormatError"
| "py_format fld (Field f) (c # r) =
     (if c = CHR ''}'' then
        (case fmt_field f of Some e \<Rightarrow> Some e | None \<Rightarrow> py_format fld Text r)
      else if c = CHR ''{'' then Some FormatError
      else if c \<in> set ''!:.['' then fld f (c # r)
      else py_format fld (Field (f @ [c])) r)"

record report =
  message :: string
  path :: string
  name :: key
  "value" :: val
  missing :: bool

fun on_error ::
  "(report \<Rightarrow> string \<Rightarrow> string \<Rightarrow> error option) \<Rightarrow> val \<Rightarrow> string \<Rightarrow> key \<Rightarrow> bool \<times> val
     \<Rightarrow> error + report" where
  "on_error fld (VStr e) p n fi =
     (let r = \<lparr>message = e, path = p, name = n, value = snd fi, missing = fst fi\<rparr>
      in case py_format (fld r) Text e of Some err \<Rightarrow> Inl err | None \<Rightarrow> Inr r)"
| "on_error fld v p n fi = Inl (AttributeError ''format'')"

datatype tmpl = Leaf chk | Node "(key \<times> tmpl) list"

text \<open>
  The loop of \<open>_follows_template\<close> over \<open>template.items()\<close>. Its state is \<open>res\<close> and
  the entries \<open>(missing, value)\<close> of the dictionary \<open>formatting_info\<close>, created once per
  call and shared by all iterations; the result carries the reports in the order made.
  \<open>report_field\<close> is \<open>self.on_error(self._get_error_msg(...), **formatting_info)\<close>, and
  \<open>and_then\<close> puts its report before those of the rest of the loop.
\<close>

definition report_field ::
  "(string \<Rightarrow> val option) \<Rightarrow> (report \<Rightarrow> string \<Rightarrow> string \<Rightarrow> error option) \<Rightarrow> attrs \<Rightarrow> key \<Rightarrow> val
     \<Rightarrow> bool \<Rightarrow> string \<Rightarrow> bool \<times> val \<Rightarrow> error + report" where
  "report_field cls fld sa attr_name error_msgs situation pth fi =
     bind (if shadowed sa ''_get_error_msg'' then Inl TypeError
           else get_error_msg cls attr_name error_msgs situation) (\<lambda>msg.
       if shadowed sa ''on_error'' then Inl TypeError
       else on_error fld msg pth attr_name fi)"

definition and_then ::
  "error + report \<Rightarrow> error + bool \<times> report list \<Rightarrow> error + bool \<times> report list" where
  "and_then r rest =
     (case r of
        Inl e \<Rightarrow> Inl e
      | Inr x \<Rightarrow> (case rest of Inl e \<Rightarrow> Inl e | Inr (b, rs) \<Rightarrow> Inr (b, x # rs)))"

text \<open>\<open>except AttributeError\<close>.\<close>

fun is_AttributeError :: "error \<Rightarrow> bool" where
  "is_AttributeError (AttributeError x) = True"
| "is_AttributeError e = False"

fun ft_loop ::
  "(string \<Rightarrow> val option) \<Rightarrow> (report \<Rightarrow> string \<Rightarrow> string \<Rightarrow> error option) \<Rightarrow> items \<Rightarrow> attrs
     \<Rightarrow> val \<Rightarrow> string \<Rightarrow> (key \<times> tmpl) list \<Rightarrow> bool \<Rightarrow> bool \<times> val
     \<Rightarrow> error + bool \<times> report list" where
  "ft_loop cls fld self sa error_msgs pth [] res fi = Inr (res, [])"
| "ft_loop cls fld self sa error_msgs pth ((attr_name, chk) # template) res fi =
     (case py_getattr cls self sa (identifier attr_name) of
        Inl e \<Rightarrow>
          if is_AttributeError e then
            and_then (report_field cls fld sa attr_name error_msgs True pth fi)
              (ft_loop cls fld self sa error_msgs pth template False fi)
          else Inl e
      | Inr attr \<Rightarrow>
          (case chk of
             Node sub \<Rightarrow>
               (case as_Config attr of
                  None \<Rightarrow>
                    and_then (report_field cls fld sa attr_name error_msgs True pth fi)
                      (ft_loop cls fld self sa error_msgs pth template False fi)
                | Some (c, ca) \<Rightarrow>
                    (case bind (py_get error_msgs attr_name (VDict [])) (\<lambda>em.
                          bind (val_getattr cls error_msgs ''_'') (\<lambda>g.
                          if shadowed sa ''_prepare_error_msgs'' then Inl TypeError
                          else prepare_error_msgs sa em [(KStr ''_'', g)])) of
                       Inl e \<Rightarrow> Inl e
                     | Inr em' \<Rightarrow>
                         if shadowed ca ''_follows_template'' then Inl TypeError
                         else
                           (case ft_loop cls fld c ca em'
                                   ((if pth \<noteq> [] then pth @ ''.'' else []) @ py_str attr_name)
                                   sub True (True, VNone) of
                              Inl e \<Rightarrow> Inl e
                            | Inr (b', rs') \<Rightarrow>
                                (case ft_loop cls fld self sa error_msgs pth template
                                        (if b' then res else False) fi of
                                   Inl e \<Rightarrow> Inl e
                                 | Inr (b, rs) \<Rightarrow> Inr (b, rs' @ rs)))))
           | Leaf c \<Rightarrow>
               (case (if shadowed sa ''_check'' then Inl TypeError else check attr c) of
                  Inl e \<Rightarrow> Inl e
                | Inr ok \<Rightarrow>
                    if ok then ft_loop cls fld self sa error_msgs pth template res fi
                    else
                      and_then (report_field cls fld sa attr_name error_msgs False pth (False, attr))
                        (ft_loop cls fld self sa error_msgs pth template False (False, attr)))))"

definition follows_template' ::
  "(string \<Rightarrow> val option) \<Rightarrow> (report \<Rightarrow> string \<Rightarrow> string \<Rightarrow> error option) \<Rightarrow> items \<Rightarrow> attrs
     \<Rightarrow> (key \<times> tmpl) list \<Rightarrow> val \<Rightarrow> string \<Rightarrow> error + bool \<times> report list" where
  "follows_template' cls fld self sa template error_msgs pth =
     ft_loop cls fld self sa error_msgs pth template True (True, VNone)"

definition follows_template ::
  "(string \<Rightarrow> val option) \<Rightarrow> (report \<Rightarrow> string \<Rightarrow> string \<Rightarrow> error option) \<Rightarrow> items \<Rightarrow> attrs
     \<Rightarrow> (key \<times> tmpl) list \<Rightarrow> val \<Rightarrow> error + bool \<times> report list" where
  "follows_template cls fld self sa template error_msgs =
     bind (if shadowed sa ''_prepare_error_msgs'' then Inl TypeError
           else prepare_error_msgs sa error_msgs [])
       (\<lambda>em. if shadowed sa ''_follows_template'' then Inl TypeError
            else follows_template' cls fld self sa template em [])"

section \<open>Notions used in the statements\<close>

text \<open>The invariant of the data model: every key of the mapping is a normalised name.\<close>

definition normalized :: "items \<Rightarrow> bool" where
  "normalized self = list_all (\<lambda>(k, v). k = KStr (identifier k)) self"

text \<open>
  The three reads of a field \<open>k\<close>: map-style by the raw key, map-style by the normalised
  name, and member-style, the latter where no instance or class attribute has that name.
\<close>

definition reads_back :: "(string \<Rightarrow> val option) \<Rightarrow> items \<Rightarrow> attrs \<Rightarrow> key \<Rightarrow> val \<Rightarrow> bool" where
  "reads_back cls self sa k w =
     (getitem self k = Inr w \<and>
      getitem self (KStr (identifier k)) = Inr w \<and>
      (map_of sa (identifier k) = None \<and> cls (identifier k) = None \<longrightarrow>
         py_getattr cls self sa (identifier k) = Inr w))"

section \<open>Properties of \<open>identifier\<close>\<close>

lemma trans_table_underscore: "trans_table (CHR ''_'') = CHR ''_''"
  by (simp add: trans_table_def)

lemma trans_table_idem: "trans_table (trans_table c) = trans_table c"
  by (simp add: trans_table_def punctuation_def)

lemma translate_idem: "translate (translate s) = translate s"
  by (simp add: translate_def trans_table_idem)

lemma trans_table_not_digit: "\<not> isdigit c \<Longrightarrow> \<not> isdigit (trans_table c)"
  by (simp add: trans_table_def isdigit_def)

lemma str_nat_nonempty: "str_nat n \<noteq> []"
  by (subst str_nat.simps) simp

lemma py_str_nonempty: "k \<noteq> KStr [] \<Longrightarrow> py_str k \<noteq> []"
  by (cases k) (simp_all add: str_int_def str_nat_nonempty)

lemma identifier_nonempty: "identifier k \<noteq> []"
  by (auto simp: identifier_def translate_def Let_def dest: py_str_nonempty)

lemma identifier_hd_not_digit: "\<not> isdigit (hd (identifier k))"
proof (cases "k = KStr []")
  case True
  then show ?thesis by (simp add: identifier_def isdigit_def)
next
  case False
  then have ne: "py_str k \<noteq> []" by (rule py_str_nonempty)
  show ?thesis
  proof (cases "isdigit (hd (py_str k))")
    case True
    with False show ?thesis
      by (simp add: identifier_def translate_def trans_table_underscore isdigit_def)
  next
    case nd: False
    with False ne show ?thesis
      by (simp add: identifier_def translate_def hd_map trans_table_not_digit)
  qed
qed

lemma identifier_translate: "translate (identifier k) = identifier k"
  by (simp add: identifier_def translate_idem Let_def) (simp add: translate_def trans_table_def punctuation_def)

lemma identifier_idem: "identifier (KStr (identifier k)) = identifier k"
  using identifier_nonempty [of k] identifier_hd_not_digit [of k]
  by (simp add: identifier_def [of "KStr (identifier k)"] identifier_translate)

section \<open>Properties of \<open>_check\<close>\<close>

lemma check_any_True_iff:
  "check_any attr cs = Inr True \<longleftrightarrow>
     (\<exists>pre c post. cs = pre @ c # post \<and> check attr c = Inr True \<and>
        (\<forall>p \<in> set pre. check attr p = Inr False))"
proof (induction cs)
  case Nil
  then show ?case by simp
next
  case (Cons a cs)
  show ?case
  proof (cases "check attr a")
    case (Inl e)
    then show ?thesis by (auto simp: Cons_eq_append_conv)
  next
    case (Inr b)
    show ?thesis
    proof (cases b)
      case True
      with Inr have "a # cs = [] @ a # cs \<and> check attr a = Inr True" by simp
      then have "\<exists>pre c post. a # cs = pre @ c # post \<and> check attr c = Inr True \<and>
        (\<forall>p \<in> set pre. check attr p = Inr False)" by fastforce
      with Inr True show ?thesis by simp
    next
      case False
      have "(\<exists>pre c post. a # cs = pre @ c # post \<and> check attr c = Inr True \<and>
        (\<forall>p \<in> set pre. check attr p = Inr False)) \<longleftrightarrow> (\<exists>pre c post. cs = pre @ c # post \<and> check attr c = Inr True \<and>
        (\<forall>p \<in> set pre. check attr p = Inr False))" (is "?L \<longleftrightarrow> ?R")
      proof
        assume ?L
        then obtain pre c post where h: "a # cs = pre @ c # post" "check attr c = Inr True"
          "\<forall>p \<in> set pre. check attr p = Inr False" by blast
        from h(1,2) Inr False obtain pre' where "pre = a # pre'" by (cases pre) auto
        with h show ?R by auto
      next
        assume ?R
        then obtain pre c post where h: "cs = pre @ c # post" "check attr c = Inr True"
          "\<forall>p \<in> set pre. check attr p = Inr False" by blast
        then have "a # cs = (a # pre) @ c # post \<and> check attr c = Inr True \<and> (\<forall>p \<in> set (a # pre). check attr p = Inr False)"
          using Inr False by simp
        then show ?L by blast
      qed
      with Inr False Cons show ?thesis by simp
    qed
  qed
qed

lemma check_all_False_iff:
  "check_all attr cs = Inr False \<longleftrightarrow>
     (\<exists>pre c post. cs = pre @ c # post \<and> check attr c = Inr False \<and>
        (\<forall>p \<in> set pre. check attr p = Inr True))"
proof (induction cs)
  case Nil
  then show ?case by simp
next
  case (Cons a cs)
  show ?case
  proof (cases "check attr a")
    case (Inl e)
    then show ?thesis by (auto simp: Cons_eq_append_conv)
  next
    case (Inr b)
    show ?thesis
    proof (cases b)
      case False
      with Inr have "a # cs = [] @ a # cs \<and> check attr a = Inr False" by simp
      then have "\<exists>pre c post. a # cs = pre @ c # post \<and> check attr c = Inr False \<and>
        (\<forall>p \<in> set pre. check attr p = Inr True)" by fastforce
      with Inr False show ?thesis by simp
    next
      case True
      have "(\<exists>pre c post. a # cs = pre @ c # post \<and> check attr c = Inr False \<and>
        (\<forall>p \<in> set pre. check attr p = Inr True)) \<longleftrightarrow> (\<exists>pre c post. cs = pre @ c # post \<and> check attr c = Inr False \<and>
        (\<forall>p \<in> set pre. check attr p = Inr True))" (is "?L \<longleftrightarrow> ?R")
      proof
        assume ?L
        then obtain pre c post where h: "a # cs = pre @ c # post" "check attr c = Inr False"
          "\<forall>p \<in> set pre. check attr p = Inr True" by blast
        from h(1,2) Inr True obtain pre' where "pre = a # pre'" by (cases pre) auto
        with h show ?R by auto
      next
        assume ?R
        then obtain pre c post where h: "cs = pre @ c # post" "check attr c = Inr False"
          "\<forall>p \<in> set pre. check attr p = Inr True" by blast
        then have "a # cs = (a # pre) @ c # post \<and> check attr c = Inr False \<and> (\<forall>p \<in> set (a # pre). check attr p = Inr True)"
          using Inr True by simp
        then show ?L by blast
      qed
      with Inr True Cons show ?thesis by simp
    qed
  qed
qed

lemma check_any_total:
  "\<forall>c \<in> set cs. \<exists>b. check attr c = Inr b \<Longrightarrow>
     check_any attr cs = Inr (\<exists>c \<in> set cs. check attr c = Inr True)"
  by (induction cs) (auto split: sum.splits bool.splits)

lemma check_all_total:
  "\<forall>c \<in> set cs. \<exists>b. check attr c = Inr b \<Longrightarrow>
     check_all attr cs = Inr (\<forall>c \<in> set cs. check attr c = Inr True)"
  by (induction cs) (auto split: sum.splits bool.splits)

lemma check_all_True_iff:
  "check_all attr cs = Inr True \<longleftrightarrow> (\<forall>c \<in> set cs. check attr c = Inr True)"
  by (induction cs) (auto split: sum.splits bool.splits)

lemma check_any_False_iff:
  "check_any attr cs = Inr False \<longleftrightarrow> (\<forall>c \<in> set cs. check attr c = Inr False)"
  by (induction cs) (auto split: sum.splits bool.splits)

text \<open>
  C5: a list check is true exactly when some member passes and every member before it
  returned false (the members after the first success are not evaluated), and false
  exactly when every member returns false. A set check is true exactly when every member
  returns true, and false exactly when some member fails and every member before it
  returned true (the members after the first failure are not evaluated). In every other
  case a member raised and so does the check. The empty list is false, the empty set true.
\<close>

theorem check_AnyOf_AllOf:
  "(check attr (CList cs) = Inr True \<longleftrightarrow>
      (\<exists>pre c post. cs = pre @ c # post \<and> check attr c = Inr True \<and>
         (\<forall>p \<in> set pre. check attr p = Inr False))) \<and>
   (check attr (CList cs) = Inr False \<longleftrightarrow> (\<forall>c \<in> set cs. check attr c = Inr False)) \<and>
   (check attr (CSet cs) = Inr True \<longleftrightarrow> (\<forall>c \<in> set cs. check attr c = Inr True)) \<and>
   (check attr (CSet cs) = Inr False \<longleftrightarrow>
      (\<exists>pre c post. cs = pre @ c # post \<and> check attr c = Inr False \<and>
         (\<forall>p \<in> set pre. check attr p = Inr True))) \<and>
   ((\<forall>c \<in> set cs. \<exists>b. check attr c = Inr b) \<longrightarrow>
      check attr (CList cs) = Inr (\<exists>c \<in> set cs. check attr c = Inr True) \<and>
      check attr (CSet cs) = Inr (\<forall>c \<in> set cs. check attr c = Inr True)) \<and>
   check attr (CList []) = Inr False \<and>
   check attr (CSet []) = Inr True"
  using check_any_True_iff [of attr cs] check_all_False_iff [of attr cs]
    check_any_False_iff [of attr cs] check_all_True_iff [of attr cs]
    check_any_total [of cs attr] check_all_total [of cs attr]
  by simp

theorem check_AnyOf_AllOf_witness:
  "check (VInt 89) (CList [CType TyBool, CFun (\<lambda>v. Some True), CFun (\<lambda>v. None)]) = Inr True \<and>
   check (VInt 89) (CSet [CType TyInt, CType TyStr, CFun (\<lambda>v. None)]) = Inr False \<and>
   check (VInt 89) (CList [CType TyBool, CType TyStr]) = Inr False \<and>
   check (VInt 89) (CSet [CType TyInt, CFun (\<lambda>v. Some True)]) = Inr True \<and>
   check (VInt 89) (CSet [CType TyInt, CFun (\<lambda>v. None), CType TyStr]) \<noteq> Inr True \<and>
   check (VInt 89) (CList [CType TyBool, CType TyInt]) = Inr True \<and>
   check (VInt 89) (CSet [CType TyBool, CType TyInt]) = Inr False"
proof -
  have a: "[CType TyBool, CFun (\<lambda>v. Some True), CFun (\<lambda>v. None)] =
             [CType TyBool] @ CFun (\<lambda>v. Some True) # [CFun (\<lambda>v. None)] \<and>
           check (VInt 89) (CFun (\<lambda>v. Some True)) = Inr True \<and>
           (\<forall>p \<in> set [CType TyBool]. check (VInt 89) p = Inr False)"
    by simp
  have b: "[CType TyInt, CType TyStr, CFun (\<lambda>v. None)] =
             [CType TyInt] @ CType TyStr # [CFun (\<lambda>v. None)] \<and>
           check (VInt 89) (CType TyStr) = Inr False \<and>
           (\<forall>p \<in> set [CType TyInt]. check (VInt 89) p = Inr True)"
    by simp
  have c: "\<forall>c \<in> set [CType TyBool, CType TyInt]. \<exists>b. check (VInt 89) c = Inr b"
    by auto
  have d: "\<forall>c \<in> set [CType TyBool, CType TyStr]. check (VInt 89) c = Inr False"
    by simp
  have e: "\<forall>c \<in> set [CType TyInt, CFun (\<lambda>v. Some True)]. check (VInt 89) c = Inr True"
    by simp
  have f: "\<not> (\<forall>c \<in> set [CType TyInt, CFun (\<lambda>v. None), CType TyStr]. check (VInt 89) c = Inr True)"
    by simp
  from a have "check (VInt 89) (CList [CType TyBool, CFun (\<lambda>v. Some True), CFun (\<lambda>v. None)]) = Inr True"
    using check_AnyOf_AllOf [of "VInt 89" "[CType TyBool, CFun (\<lambda>v. Some True), CFun (\<lambda>v. None)]"]
    by blast
  moreover from b have "check (VInt 89) (CSet [CType TyInt, CType TyStr, CFun (\<lambda>v. None)]) = Inr False"
    using check_AnyOf_AllOf [of "VInt 89" "[CType TyInt, CType TyStr, CFun (\<lambda>v. None)]"]
    by blast
  moreover from d have "check (VInt 89) (CList [CType TyBool, CType TyStr]) = Inr False"
    using check_AnyOf_AllOf [of "VInt 89" "[CType TyBool, CType TyStr]"]
    by blast
  moreover from e have "check (VInt 89) (CSet [CType TyInt, CFun (\<lambda>v. Some True)]) = Inr True"
    using check_AnyOf_AllOf [of "VInt 89" "[CType TyInt, CFun (\<lambda>v. Some True)]"]
    by blast
  moreover from f have "check (VInt 89) (CSet [CType TyInt, CFun (\<lambda>v. None), CType TyStr]) \<noteq> Inr True"
    using check_AnyOf_AllOf [of "VInt 89" "[CType TyInt, CFun (\<lambda>v. None), CType TyStr]"]
    by blast
  moreover from c have "check (VInt 89) (CList [CType TyBool, CType TyInt]) = Inr True \<and>
      check (VInt 89) (CSet [CType TyBool, CType TyInt]) = Inr False"
    using check_AnyOf_AllOf [of "VInt 89" "[CType TyBool, CType TyInt]"]
    by simp
  ultimately show ?thesis by simp
qed

text \<open>
  C10: \<open>identifier\<close> is idempotent, so \<open>__getitem__\<close> on a normalised name looks the same
  key up on its raw path and on its normalised retry: it returns what the mapping stores
  under that name, and fails only when the name is not stored.
\<close>

theorem identifier_idempotent:
  "identifier (KStr (identifier k)) = identifier k \<and>
   getitem self (KStr (identifier k)) =
     (case map_of self (KStr (identifier k)) of
        Some v \<Rightarrow> Inr v
      | None \<Rightarrow> Inl (KeyError (KStr (identifier k))))"
  by (simp add: getitem_def identifier_idem split: option.splits)

section \<open>Reading back what was stored\<close>

lemma map_of_update_same: "map_of (AList.update k v al) k = Some v"
  by (simp add: update_conv')

lemma normalized_map_of:
  "normalized self \<Longrightarrow> map_of self k = Some v \<Longrightarrow> k = KStr (identifier k)"
  by (induction self) (auto simp: normalized_def split: if_splits)

lemma normalized_update:
  "normalized self \<Longrightarrow> normalized (AList.update (KStr (identifier k)) v self)"
  by (induction self) (auto simp: normalized_def identifier_idem)

lemma reads_back_update:
  assumes "normalized self"
  shows "reads_back cls (AList.update (KStr (identifier k)) w self) sa k w"
proof -
  let ?s = "AList.update (KStr (identifier k)) w self"
  have n: "normalized ?s" using assms by (rule normalized_update)
  have a: "map_of ?s (KStr (identifier k)) = Some w" by (rule map_of_update_same)
  have b: "getitem ?s (KStr (identifier k)) = Inr w"
    using a by (simp add: getitem_def)
  have c: "getitem ?s k = Inr w"
  proof (cases "map_of ?s k")
    case None
    with a show ?thesis by (simp add: getitem_def)
  next
    case (Some x)
    with n have "k = KStr (identifier k)" by (rule normalized_map_of)
    with b show ?thesis by simp
  qed
  show ?thesis using b c by (simp add: reads_back_def py_getattr_def Config_getattr_def)
qed

text \<open>
  C4 (as amended): in a store whose keys are normalised names, after \<open>update\<close> with
  the single item \<open>(k, v)\<close>, \<open>k\<close> text or an integer, the reads by \<open>k\<close> and by its
  normalised name return \<open>v\<close> when \<open>v\<close> is not a dictionary, and the \<open>Config\<close> built
  from \<open>v\<close> when it is one; the member-style read returns the same where the normalised
  name is not an attribute of the instance or of the class. The store built from
  \<open>{1337: "x", "A": {"ASCII": 65}}\<close> returns \<open>"x"\<close> for \<open>1337\<close> and for \<open>"_1337"\<close>, and a
  nested store for \<open>"A"\<close> whose field \<open>"ASCII"\<close> is \<open>65\<close>.
\<close>

theorem update_then_get:
  assumes "normalized self" and "is_str_or_int k"
  shows
    "(\<not> isinstance v TyDict \<longrightarrow>
        snd (update self [(k, v)]) = None \<and>
        reads_back cls (fst (update self [(k, v)])) sa k v) \<and>
     (\<forall>d c. py_items v = Inr d \<and> update [] d = (c, None) \<longrightarrow>
        snd (update self [(k, v)]) = None \<and>
        reads_back cls (fst (update self [(k, v)])) sa k (VConfig c [])) \<and>
     (let s = [(KStr ''_1337'', VStr ''x''), (KStr ''A'', VConfig [(KStr ''ASCII'', VInt 65)] [])]
      in Config_init [(KInt 1337, VStr ''x''), (KStr ''A'', VDict [(KStr ''ASCII'', VInt 65)])] []
           = Inr s \<and>
         getitem s (KInt 1337) = Inr (VStr ''x'') \<and>
         getitem s (KStr ''_1337'') = Inr (VStr ''x'') \<and>
         getitem s (KStr ''A'') = Inr (VConfig [(KStr ''ASCII'', VInt 65)] []) \<and>
         getitem [(KStr ''ASCII'', VInt 65)] (KStr ''ASCII'') = Inr (VInt 65))"
proof (intro conjI)
  show "\<not> isinstance v TyDict \<longrightarrow>
        snd (update self [(k, v)]) = None \<and>
        reads_back cls (fst (update self [(k, v)])) sa k v"
  proof
  assume "\<not> isinstance v TyDict"
  then have u: "update self [(k, v)] = (AList.update (KStr (identifier k)) v self, None)"
    using assms(2) by (cases v) simp_all
  show "snd (update self [(k, v)]) = None \<and> reads_back cls (fst (update self [(k, v)])) sa k v"
    using u reads_back_update [OF assms(1)] by simp
  qed
next
  show "\<forall>d c. py_items v = Inr d \<and> update [] d = (c, None) \<longrightarrow>
        snd (update self [(k, v)]) = None \<and>
        reads_back cls (fst (update self [(k, v)])) sa k (VConfig c [])"
  proof (intro allI impI)
  fix d c assume h: "py_items v = Inr d \<and> update [] d = (c, None)"
  then have u: "update self [(k, v)] = (AList.update (KStr (identifier k)) (VConfig c []) self, None)"
    using assms(2) by (cases v) (auto split: if_splits)
  show "snd (update self [(k, v)]) = None \<and>
        reads_back cls (fst (update self [(k, v)])) sa k (VConfig c [])"
    using u reads_back_update [OF assms(1)] by simp
  qed
next
  show "let s = [(KStr ''_1337'', VStr ''x''), (KStr ''A'', VConfig [(KStr ''ASCII'', VInt 65)] [])]
      in Config_init [(KInt 1337, VStr ''x''), (KStr ''A'', VDict [(KStr ''ASCII'', VInt 65)])] []
           = Inr s \<and>
         getitem s (KInt 1337) = Inr (VStr ''x'') \<and>
         getitem s (KStr ''_1337'') = Inr (VStr ''x'') \<and>
         getitem s (KStr ''A'') = Inr (VConfig [(KStr ''ASCII'', VInt 65)] []) \<and>
         getitem [(KStr ''ASCII'', VInt 65)] (KStr ''ASCII'') = Inr (VInt 65)"
    by code_simp
qed

theorem update_then_get_witness:
  "reads_back Config_class (fst (update [] [(KInt 1337, VStr ''x'')])) [] (KInt 1337) (VStr ''x'') \<and>
   reads_back Config_class (fst (update [] [(KStr ''A'', VDict [(KStr ''ASCII'', VInt 65)])])) []
     (KStr ''A'') (VConfig [(KStr ''ASCII'', VInt 65)] [])"
proof -
  have n: "normalized []" by (simp add: normalized_def)
  have a: "\<not> isinstance (VStr ''x'') TyDict" by simp
  have b: "py_items (VDict [(KStr ''ASCII'', VInt 65)]) = Inr [(KStr ''ASCII'', VInt 65)] \<and>
           update [] [(KStr ''ASCII'', VInt 65)] = ([(KStr ''ASCII'', VInt 65)], None)"
    by code_simp
  have i: "is_str_or_int (KInt 1337)" "is_str_or_int (KStr ''A'')" by simp_all
  show ?thesis
    using update_then_get [OF n i(1), of "VStr ''x''" Config_class "[]"] a
      update_then_get [OF n i(2), of "VDict [(KStr ''ASCII'', VInt 65)]" Config_class "[]"] b
    by blast
qed

text \<open>
  C4 as stated fails: the field \<open>update\<close> reads member-style as the method of the class,
  and a dictionary value with the key \<open>"a b"\<close> reads back as a \<open>Config\<close> with the key
  \<open>"a_b"\<close>, which does not compare equal to it.
\<close>

theorem update_then_get_counterexample:
  "normalized [] \<and> is_str_or_int (KStr ''update'') \<and>
   update [] [(KStr ''update'', VInt 1)] = ([(KStr ''update'', VInt 1)], None) \<and>
   py_getattr Config_class [(KStr ''update'', VInt 1)] [] (identifier (KStr ''update''))
     = Inr (VMethod ''update'') \<and>
   update [] [(KStr ''n'', VDict [(KStr ''a b'', VInt 1)])]
     = ([(KStr ''n'', VConfig [(KStr ''a_b'', VInt 1)] [])], None) \<and>
   getitem [(KStr ''n'', VConfig [(KStr ''a_b'', VInt 1)] [])] (KStr ''n'')
     = Inr (VConfig [(KStr ''a_b'', VInt 1)] []) \<and>
   \<not> py_eq (VConfig [(KStr ''a_b'', VInt 1)] []) (VDict [(KStr ''a b'', VInt 1)])"
  unfolding normalized_def by code_simp

text \<open>
  C8 (as amended): member-style assignment to a name that is a key of the mapping
  overwrites the value, the map-style read returns the new value, and so does the
  member-style read where the name is not an attribute of the instance or of the class.
  Assignment to a name that is not a key leaves the mapping as it was, and a lookup of the
  name that failed before fails with \<open>KeyError\<close> afterwards.
\<close>

theorem setattr_existing_or_new:
  "(map_of (fst self) (KStr attr) \<noteq> None \<longrightarrow>
      getitem (fst (Config_setattr self attr v)) (KStr attr) = Inr v \<and>
      (map_of (snd self) attr = None \<and> cls attr = None \<longrightarrow>
         py_getattr cls (fst (Config_setattr self attr v)) (snd (Config_setattr self attr v)) attr
           = Inr v)) \<and>
   (map_of (fst self) (KStr attr) = None \<longrightarrow>
      fst (Config_setattr self attr v) = fst self \<and>
      (\<forall>e. getitem (fst self) (KStr attr) = Inl e \<longrightarrow>
         getitem (fst (Config_setattr self attr v)) (KStr attr) = Inl (KeyError (KStr attr))))"
  by (auto simp: Config_setattr_def getitem_def py_getattr_def Config_getattr_def
        map_of_update_same split: option.splits)

theorem setattr_existing_or_new_witness:
  "getitem (fst (Config_setattr ([(KStr ''ASCII'', VInt 660)], []) ''ASCII'' (VInt 0))) (KStr ''ASCII'')
     = Inr (VInt 0) \<and>
   py_getattr Config_class (fst (Config_setattr ([(KStr ''ASCII'', VInt 660)], []) ''ASCII'' (VInt 0)))
     (snd (Config_setattr ([(KStr ''ASCII'', VInt 660)], []) ''ASCII'' (VInt 0))) ''ASCII''
     = Inr (VInt 0) \<and>
   fst (Config_setattr ([(KStr ''ASCII'', VInt 660)], []) ''kind'' (VStr ''alpha''))
     = [(KStr ''ASCII'', VInt 660)] \<and>
   getitem (fst (Config_setattr ([(KStr ''ASCII'', VInt 660)], []) ''kind'' (VStr ''alpha'')))
     (KStr ''kind'') = Inl (KeyError (KStr ''kind''))"
proof -
  have a: "map_of (fst ([(KStr ''ASCII'', VInt 660)], []::attrs)) (KStr ''ASCII'') \<noteq> None"
    by simp
  have b: "map_of (snd ([(KStr ''ASCII'', VInt 660)], []::attrs)) ''ASCII'' = None \<and>
           Config_class ''ASCII'' = None"
    by (simp add: Config_class_def Config_names_def dict_names_def)
  have c: "map_of (fst ([(KStr ''ASCII'', VInt 660)], []::attrs)) (KStr ''kind'') = None"
    by simp
  have d: "getitem (fst ([(KStr ''ASCII'', VInt 660)], []::attrs)) (KStr ''kind'')
             = Inl (KeyError (KStr ''kind''))"
    by code_simp
  show ?thesis
    using setattr_existing_or_new [of "([(KStr ''ASCII'', VInt 660)], [])" "''ASCII''" "VInt 0" Config_class]
      setattr_existing_or_new [of "([(KStr ''ASCII'', VInt 660)], [])" "''kind''" "VStr ''alpha''" Config_class]
      a b c d
    by simp
qed

text \<open>
  C8 as stated fails for the stored field \<open>update\<close>: after the assignment the
  member-style read returns the method, not the value assigned.
\<close>

theorem setattr_existing_or_new_counterexample:
  "map_of (fst ([(KStr ''update'', VInt 1)], [])) (KStr ''update'') \<noteq> None \<and>
   py_getattr Config_class
     (fst (Config_setattr ([(KStr ''update'', VInt 1)], []) ''update'' (VInt 5)))
     (snd (Config_setattr ([(KStr ''update'', VInt 1)], []) ''update'' (VInt 5))) ''update''
     = Inr (VMethod ''update'')"
  by code_simp

section \<open>Runs of the resolver and of the validator\<close>

text \<open>
  C1: with the override \<open>{"x": "bad"}\<close> the message resolved for the missing field
  \<open>x\<close> has the bare string as its body; without the override it is the general
  \<open>missing\<close> text.
\<close>

theorem bare_string_override_on_missing:
  "bind (prepare_error_msgs [] (VDict [(KStr ''x'', VStr ''bad'')]) [])
     (\<lambda>em. get_error_msg Config_class (KStr ''x'') em True)
   = Inr (VStr ''{path}.{name} bad.'') \<and>
   bind (prepare_error_msgs [] (VDict []) [])
     (\<lambda>em. get_error_msg Config_class (KStr ''x'') em True)
   = Inr (VStr ''{path}.{name} is missing.'')"
  by code_simp

text \<open>
  C3: validating the store \<open>{"a": "x"}\<close> against \<open>{"a": int, "b": int}\<close> reports the
  missing field \<open>b\<close> with \<open>missing = False\<close> and the value of \<open>a\<close>, left in
  \<open>formatting_info\<close> by the report of the invalid field.
\<close>

theorem missing_after_invalid_report:
  "follows_template Config_class fld [(KStr ''a'', VStr ''x'')] []
     [(KStr ''a'', Leaf (CType TyInt)), (KStr ''b'', Leaf (CType TyInt))] (VDict [])
   = Inr (False,
       [\<lparr>message = ''{path}.{name} is invalid.'', path = [], name = KStr ''a'',
          value = VStr ''x'', missing = False\<rparr>,
        \<lparr>message = ''{path}.{name} is missing.'', path = [], name = KStr ''b'',
          value = VStr ''x'', missing = False\<rparr>])"
  by code_simp

section \<open>Properties of the validation loop\<close>

lemma and_then_Inr:
  "and_then r rest = Inr (b, rs) \<longleftrightarrow>
     (\<exists>x rs'. r = Inr x \<and> rest = Inr (b, rs') \<and> rs = x # rs')"
  by (auto simp: and_then_def split: sum.splits)

lemma ft_loop_res:
  "ft_loop cls fld self sa em pth t res fi = Inr (b, rs) \<Longrightarrow> b \<Longrightarrow> res"
proof (induction cls fld self sa em pth t res fi arbitrary: b rs rule: ft_loop.induct)
  case (1 cls fld self sa error_msgs pth res fi)
  then show ?case by simp
next
  case (2 cls fld self sa error_msgs pth attr_name chk template res fi)
  note run = "2.prems"(1) and b = "2.prems"(2)
  show ?case
  proof (cases "py_getattr cls self sa (identifier attr_name)")
    case (Inl e)
    with run have e: "is_AttributeError e"
      by (auto split: if_splits)
    with run Inl obtain rs' where
      "ft_loop cls fld self sa error_msgs pth template False fi = Inr (b, rs')"
      by (auto simp: and_then_Inr)
    with "2.IH" Inl e b show ?thesis by blast
  next
    case (Inr attr)
    show ?thesis
    proof (cases chk)
      case (Leaf c)
      with run Inr obtain ok where
        ck: "(if shadowed sa ''_check'' then Inl TypeError else check attr c) = Inr ok"
        by (auto split: sum.splits)
      show ?thesis
      proof (cases ok)
        case True
        with run Inr Leaf ck
        have "ft_loop cls fld self sa error_msgs pth template res fi = Inr (b, rs)" by simp
        with "2.IH" Inr Leaf ck True b show ?thesis by blast
      next
        case False
        with run Inr Leaf ck obtain rs' where
          "ft_loop cls fld self sa error_msgs pth template False (False, attr) = Inr (b, rs')"
          by (auto simp: and_then_Inr)
        with "2.IH" Inr Leaf ck False b show ?thesis by blast
      qed
    next
      case (Node sub)
      show ?thesis
      proof (cases "as_Config attr")
        case None
        with run Inr Node obtain rs' where
          r: "ft_loop cls fld self sa error_msgs pth template False fi = Inr (b, rs')"
          by (auto simp: and_then_Inr)
        with "2.IH" Inr Node None b show ?thesis by blast
      next
        case (Some cc)
        obtain c ca where cc: "cc = (c, ca)" by (cases cc)
        have sc: "as_Config attr = Some (c, ca)" using Some cc by simp
        from run Inr Node sc obtain em' where
          p: "bind (py_get error_msgs attr_name (VDict [])) (\<lambda>em.
                bind (val_getattr cls error_msgs ''_'') (\<lambda>g.
                if shadowed sa ''_prepare_error_msgs'' then Inl TypeError
                else prepare_error_msgs sa em [(KStr ''_'', g)])) = Inr em'"
          by (auto split: sum.splits)
        from run Inr Node sc p have ns: "\<not> shadowed ca ''_follows_template''"
          by (auto split: if_splits)
        from run Inr Node sc p ns obtain b' rs' where
          n: "ft_loop cls fld c ca em' ((if pth \<noteq> [] then pth @ ''.'' else []) @ py_str attr_name)
                sub True (True, VNone) = Inr (b', rs')"
          by (auto split: sum.splits)
        from run Inr Node sc p ns n obtain rs'' where
          r: "ft_loop cls fld self sa error_msgs pth template (if b' then res else False) fi
                = Inr (b, rs'')"
          by (auto split: sum.splits)
        have "if b' then res else False"
          by (rule "2.IH"(6) [OF Inr Node sc refl p ns n refl r b])
        then show ?thesis by (simp split: if_splits)
      qed
    qed
  qed
qed

lemma as_Config_None: "as_Config attr = None \<longleftrightarrow> \<not> is_Config attr"
  by (cases attr) simp_all

lemma ft_loop_Node_non_Config:
  assumes "py_getattr cls self sa (identifier attr_name) = Inr attr"
    and "\<not> is_Config attr"
  shows
    "ft_loop cls fld self sa em pth ((attr_name, Node sub) # template) res fi =
       and_then (report_field cls fld sa attr_name em True pth fi)
         (ft_loop cls fld self sa em pth template False fi)"
  using assms by (simp add: as_Config_None [symmetric])

text \<open>
  C7: validating the store \<open>{"b": 5}\<close> against the nested template \<open>{"b": {"x": int}}\<close>
  with the messages \<open>{"b": "bad"}\<close> returns false with one report for \<open>b\<close> and does not
  visit \<open>x\<close>, but the message of the report is the bare string, the text that the same
  messages give to an invalid \<open>b\<close>, and not the general \<open>missing\<close> text.
\<close>

theorem nested_template_on_non_store_message:
  "follows_template Config_class fld [(KStr ''b'', VInt 5)] []
     [(KStr ''b'', Node [(KStr ''x'', Leaf (CType TyInt))])] (VDict [(KStr ''b'', VStr ''bad'')])
   = Inr (False,
       [\<lparr>message = ''{path}.{name} bad.'', path = [], name = KStr ''b'',
          value = VNone, missing = True\<rparr>]) \<and>
   follows_template Config_class fld [(KStr ''b'', VInt 5)] []
     [(KStr ''b'', Leaf (CType TyStr))] (VDict [(KStr ''b'', VStr ''bad'')])
   = Inr (False,
       [\<lparr>message = ''{path}.{name} bad.'', path = [], name = KStr ''b'',
          value = VInt 5, missing = False\<rparr>]) \<and>
   follows_template Config_class fld [(KStr ''b'', VInt 5)] []
     [(KStr ''b'', Node [(KStr ''x'', Leaf (CType TyInt))])] (VDict [])
   = Inr (False,
       [\<lparr>message = ''{path}.{name} is missing.'', path = [], name = KStr ''b'',
          value = VNone, missing = True\<rparr>])"
  by code_simp

end
